theory Spec2Isabelle
  imports Main "HOL-Library.Multiset" "HOL-Library.Sublist"
begin

section \<open>Values read from JSON\<close>

text \<open>
  The program of \<^verbatim>\<open>ch_api_server.py\<close> keeps its portfolio in \<^verbatim>\<open>companies.json\<close> and fills
  it from the JSON answers of the Companies House registry. A field of a saved company is
  therefore whatever JSON value the registry sent: usually a string, sometimes \<^verbatim>\<open>None\<close>.
  The values are modelled as the JSON data Python's \<^verbatim>\<open>json\<close> module produces; numbers are
  integers here (the code never computes with a number it has read). A \<open>string\<close> is a list
  of 8-bit characters, so the strings of the model are the Python strings whose code
  points are below 256.
\<close>

datatype json =
    JNull
  | JBool bool
  | JNum int
  | JStr string
  | JArr "json list"
  | JObj "(string \<times> json) list"

text \<open>Python's truth value of such a value (\<^verbatim>\<open>not x\<close> is its negation).\<close>

fun truthy :: "json \<Rightarrow> bool" where
  "truthy JNull = False"
| "truthy (JBool b) = b"
| "truthy (JNum n) = (n \<noteq> 0)"
| "truthy (JStr s) = (s \<noteq> [])"
| "truthy (JArr xs) = (xs \<noteq> [])"
| "truthy (JObj kvs) = (kvs \<noteq> [])"

text \<open>The exceptions the modelled code can meet.\<close>

datatype error = ValueError | TypeError | AttributeError | RequestException | JSONDecodeError

section \<open>Dates\<close>

text \<open>
  \<^verbatim>\<open>datetime.date\<close>: a proleptic Gregorian date. \<open>toordinal\<close> follows CPython's
  \<^verbatim>\<open>_ymd2ord\<close>: the days before the year, the days before the month (a table, plus one
  after February of a leap year) and the day of the month. The difference of two dates,
  \<^verbatim>\<open>(d - today).days\<close>, is the difference of their ordinals.
\<close>

record date =
  year :: nat
  month :: nat
  day :: nat

definition is_leap :: "nat \<Rightarrow> bool" where
  "is_leap y = (y mod 4 = 0 \<and> (y mod 100 \<noteq> 0 \<or> y mod 400 = 0))"

definition days_in_month :: "nat \<Rightarrow> nat \<Rightarrow> nat" where
  "days_in_month y m =
     (if m = 2 \<and> is_leap y then 29
      else [0, 31, 28, 31, 30, 31, 30, 31, 31, 30, 31, 30, 31] ! m)"

definition days_before_year :: "nat \<Rightarrow> int" where
  "days_before_year y =
     (let y1 = int y - 1 in y1 * 365 + y1 div 4 - y1 div 100 + y1 div 400)"

definition days_before_month :: "nat \<Rightarrow> nat \<Rightarrow> int" where
  "days_before_month y m =
     [0, 0, 31, 59, 90, 120, 151, 181, 212, 243, 273, 304, 334] ! m
       + (if m > 2 \<and> is_leap y then 1 else 0)"

definition toordinal :: "date \<Rightarrow> int" where
  "toordinal d = days_before_year (year d) + days_before_month (year d) (month d) + int (day d)"

text \<open>
  The constructor \<^verbatim>\<open>date(year, month, day)\<close> raises \<^verbatim>\<open>ValueError\<close> outside the years
  1 to 9999, the months 1 to 12 and the days of the month.
\<close>

definition make_date :: "nat \<Rightarrow> nat \<Rightarrow> nat \<Rightarrow> error + date" where
  "make_date y m d =
     (if 1 \<le> y \<and> y \<le> 9999 \<and> 1 \<le> m \<and> m \<le> 12 \<and> 1 \<le> d \<and> d \<le> days_in_month y m
      then Inr \<lparr>year = y, month = m, day = d\<rparr>
      else Inl ValueError)"

subsection \<open>Parsing with the format \<^verbatim>\<open>%Y-%m-%d\<close>\<close>

text \<open>
  \<^verbatim>\<open>datetime.strptime(date_str, "%Y-%m-%d")\<close> turns the format into the regular expression
  \<^verbatim>\<open>(?P<Y>\d\d\d\d)-(?P<m>1[0-2]|0[1-9]|[1-9])-(?P<d>3[0-1]|[1-2]\d|0[1-9]|[1-9]| [1-9])\<close>,
  matches it at the start of the string, and raises \<^verbatim>\<open>ValueError\<close> when there is no
  match, when the match does not reach the end of the string, or when the numbers are
  not a date. Each field below lists the ways its group can match, in the order the
  regular expression tries them, with the rest of the string after each; the match is
  the first complete path.
\<close>

definition digit_val :: "char \<Rightarrow> nat option" where
  "digit_val c = map_of
     [(CHR ''0'', 0), (CHR ''1'', 1), (CHR ''2'', 2), (CHR ''3'', 3), (CHR ''4'', 4),
      (CHR ''5'', 5), (CHR ''6'', 6), (CHR ''7'', 7), (CHR ''8'', 8), (CHR ''9'', 9)] c"

definition digit :: "char \<Rightarrow> nat" where
  "digit c = (case digit_val c of Some n \<Rightarrow> n | None \<Rightarrow> 0)"

definition year_alts :: "string \<Rightarrow> (nat \<times> string) list" where
  "year_alts s =
     (case s of
        a # b # c # d # r \<Rightarrow>
          (if digit_val a \<noteq> None \<and> digit_val b \<noteq> None \<and> digit_val c \<noteq> None \<and> digit_val d \<noteq> None
           then [(1000 * digit a + 100 * digit b + 10 * digit c + digit d, r)]
           else [])
      | _ \<Rightarrow> [])"

definition dash :: "string \<Rightarrow> string list" where
  "dash s = (case s of c # r \<Rightarrow> (if c = CHR ''-'' then [r] else []) | [] \<Rightarrow> [])"

definition month_alts :: "string \<Rightarrow> (nat \<times> string) list" where
  "month_alts s =
     (case s of
        [] \<Rightarrow> []
      | a # t \<Rightarrow>
          (case t of
             [] \<Rightarrow> []
           | b # r \<Rightarrow>
               (if a = CHR ''1'' \<and> b \<in> set ''012'' then [(10 + digit b, r)] else []) @
               (if a = CHR ''0'' \<and> b \<in> set ''123456789'' then [(digit b, r)] else [])) @
          (if a \<in> set ''123456789'' then [(digit a, t)] else []))"

definition day_alts :: "string \<Rightarrow> (nat \<times> string) list" where
  "day_alts s =
     (case s of
        [] \<Rightarrow> []
      | a # t \<Rightarrow>
          (case t of
             [] \<Rightarrow> []
           | b # r \<Rightarrow>
               (if a = CHR ''3'' \<and> b \<in> set ''01'' then [(30 + digit b, r)] else []) @
               (if a \<in> set ''12'' \<and> digit_val b \<noteq> None then [(10 * digit a + digit b, r)] else []) @
               (if a = CHR ''0'' \<and> b \<in> set ''123456789'' then [(digit b, r)] else [])) @
          (if a \<in> set ''123456789'' then [(digit a, t)] else []) @
          (case t of
             [] \<Rightarrow> []
           | b # r \<Rightarrow>
               (if a = CHR '' '' \<and> b \<in> set ''123456789'' then [(digit b, r)] else [])))"

definition match_ymd :: "string \<Rightarrow> (nat \<times> nat \<times> nat \<times> string) option" where
  "match_ymd s =
     (case [(y, m, d, r5).
              (y, r1) \<leftarrow> year_alts s, r2 \<leftarrow> dash r1,
              (m, r3) \<leftarrow> month_alts r2, r4 \<leftarrow> dash r3,
              (d, r5) \<leftarrow> day_alts r4] of
        [] \<Rightarrow> None
      | x # _ \<Rightarrow> Some x)"

definition strptime_ymd :: "string \<Rightarrow> error + date" where
  "strptime_ymd s =
     (case match_ymd s of
        None \<Rightarrow> Inl ValueError
      | Some (y, m, d, rest) \<Rightarrow> (if rest \<noteq> [] then Inl ValueError else make_date y m d))"

text \<open>\<^verbatim>\<open>strptime\<close> raises \<^verbatim>\<open>TypeError\<close> when its first argument is not a string.\<close>

definition strptime :: "json \<Rightarrow> error + date" where
  "strptime v = (case v of JStr s \<Rightarrow> strptime_ymd s | _ \<Rightarrow> Inl TypeError)"

section \<open>Deadline helpers\<close>

text \<open>
  \<^verbatim>\<open>days_until\<close> (source lines 107 to 116). \<^verbatim>\<open>date.today()\<close> is the parameter \<open>today\<close>.
  Every exception of the parse is caught and becomes \<^verbatim>\<open>None\<close>.
\<close>

definition days_until :: "date \<Rightarrow> json \<Rightarrow> int option" where
  "days_until today date_str =
     (if \<not> truthy date_str \<or> date_str = JStr ''N/A'' then None
      else (case strptime date_str of
              Inl e \<Rightarrow> None
            | Inr d \<Rightarrow> Some (toordinal d - toordinal today)))"

text \<open>
  \<^verbatim>\<open>status_label\<close> (source lines 139 to 153). The labels start with an emoji; the source
  file is UTF-8, and the emoji are written here as their bytes in the file.
\<close>

definition white_circle :: string where
  "white_circle = [CHR 0xE2, CHR 0x9A, CHR 0xAA]"

definition red_circle :: string where
  "red_circle = [CHR 0xF0, CHR 0x9F, CHR 0x94, CHR 0xB4]"

definition orange_circle :: string where
  "orange_circle = [CHR 0xF0, CHR 0x9F, CHR 0x9F, CHR 0xA0]"

definition yellow_circle :: string where
  "yellow_circle = [CHR 0xF0, CHR 0x9F, CHR 0x9F, CHR 0xA1]"

definition green_circle :: string where
  "green_circle = [CHR 0xF0, CHR 0x9F, CHR 0x9F, CHR 0xA2]"

definition status_label :: "date \<Rightarrow> json \<Rightarrow> string" where
  "status_label today date_str =
     (case days_until today date_str of
        None \<Rightarrow> white_circle @ '' N/A''
      | Some d \<Rightarrow>
          if d < 0 then red_circle @ '' Overdue''
          else if d \<le> 7 then orange_circle @ '' Due in 7 days''
          else if d \<le> 30 then yellow_circle @ '' Due in 30 days''
          else green_circle @ '' OK'')"

text \<open>\<^verbatim>\<open>str\<close> of an integer, as the f-strings of \<^verbatim>\<open>relative_label\<close> format it.\<close>

fun str_nat :: "nat \<Rightarrow> string" where
  "str_nat n =
     (if n < 10 then [''0123456789'' ! n]
      else str_nat (n div 10) @ [''0123456789'' ! (n mod 10)])"

definition str_int :: "int \<Rightarrow> string" where
  "str_int i = (if i < 0 then CHR ''-'' # str_nat (nat (- i)) else str_nat (nat i))"

text \<open>\<^verbatim>\<open>relative_label\<close> (source lines 119 to 136).\<close>

definition relative_label :: "date \<Rightarrow> json \<Rightarrow> string" where
  "relative_label today date_str =
     (case days_until today date_str of
        None \<Rightarrow> ''N/A''
      | Some d \<Rightarrow>
          if d < 0 then
            (let days_ago = \<bar>d\<bar>; months_ago = days_ago div 30 in
               if months_ago = 0 then str_int days_ago @ '' days ago''
               else str_int months_ago @ '' month'' @ (if months_ago \<noteq> 1 then ''s'' else '''') @ '' ago'')
          else if d < 30 then ''in '' @ str_int d @ '' days''
          else (let months = d div 30 in
                  ''in '' @ str_int months @ '' month'' @ (if months \<noteq> 1 then ''s'' else '''')))"

text \<open>\<^verbatim>\<open>days_remaining\<close> (source lines 156 to 158).\<close>

definition days_remaining :: "date \<Rightarrow> json \<Rightarrow> int option" where
  "days_remaining today date_str = days_until today date_str"

section \<open>Company records and the overall status\<close>

text \<open>
  A saved company is a dictionary with the six keys below (the dashboard's save button
  and \<^verbatim>\<open>refresh_company_data\<close> write all six). The registration number is text the user
  typed; the other fields come from the registry's answer.
\<close>

record company =
  crn :: string
  name :: json
  status :: json
  accounts_due :: json
  cs_due :: json
  last_updated :: string

text \<open>
  \<^verbatim>\<open>company_overall_status\<close> (source lines 161 to 181): the offsets that are not
  \<^verbatim>\<open>None\<close> are collected, and the smallest decides. The two dates are read with
  \<^verbatim>\<open>company.get\<close>; a record has both keys.
\<close>

definition company_overall_status :: "date \<Rightarrow> company \<Rightarrow> string" where
  "company_overall_status today c =
     (let days_list = [days_remaining today (accounts_due c), days_remaining today (cs_due c)];
          days_list = [d. Some d \<leftarrow> days_list]
      in case days_list of
           [] \<Rightarrow> ''N/A''
         | x # xs \<Rightarrow>
             (let min_days = fold min xs x in
                if min_days < 0 then ''Overdue''
                else if min_days \<le> 7 then ''Due in 7 days''
                else if min_days \<le> 30 then ''Due in 30 days''
                else ''OK''))"

section \<open>The portfolio file\<close>

text \<open>
  \<^verbatim>\<open>companies.json\<close> holds the list of saved companies. \<open>None\<close> is a file that is
  missing or cannot be read as JSON: \<^verbatim>\<open>load_companies\<close> (source lines 19 to 25) then
  returns the empty list. \<^verbatim>\<open>save_companies\<close> (lines 28 to 31) overwrites the file.
\<close>

type_synonym companies_file = "company list option"

definition load_companies :: "companies_file \<Rightarrow> company list" where
  "load_companies f = (case f of None \<Rightarrow> [] | Some cs \<Rightarrow> cs)"

definition save_companies :: "company list \<Rightarrow> companies_file" where
  "save_companies data = Some data"

text \<open>
  \<^verbatim>\<open>add_company\<close> (source lines 34 to 42). The loop returns \<^verbatim>\<open>False\<close> at the first saved
  company with the same number; \<open>crn_saved\<close> is that loop.
\<close>

fun crn_saved :: "string \<Rightarrow> company list \<Rightarrow> bool" where
  "crn_saved k [] = False"
| "crn_saved k (c # cs) = (if crn c = k then True else crn_saved k cs)"

definition add_company :: "company \<Rightarrow> companies_file \<Rightarrow> bool \<times> companies_file" where
  "add_company company_data f =
     (let companies = load_companies f in
        if crn_saved (crn company_data) companies then (False, f)
        else (True, save_companies (companies @ [company_data])))"

section \<open>The registry\<close>

text \<open>
  \<^verbatim>\<open>requests.get\<close> is the outside world: a request changes a world state \<open>'w\<close> and
  either raises or answers with a status code and a body, whose \<^verbatim>\<open>r.json()\<close> is a JSON
  value or raises. \<^verbatim>\<open>get_json\<close> (source lines 53 to 57) returns \<^verbatim>\<open>None\<close>, here \<open>JNull\<close>,
  for every status code but 200.
\<close>

record response =
  status_code :: int
  body :: "json option"

type_synonym 'w http = "string \<Rightarrow> 'w \<Rightarrow> (error + response) \<times> 'w"

definition BASE_URL :: string where
  "BASE_URL = ''https://api.company-information.service.gov.uk''"

definition get_json :: "'w http \<Rightarrow> string \<Rightarrow> 'w \<Rightarrow> (error + json) \<times> 'w" where
  "get_json requests_get endpoint w =
     (case requests_get (BASE_URL @ endpoint) w of
        (Inl e, w') \<Rightarrow> (Inl e, w')
      | (Inr r, w') \<Rightarrow>
          if status_code r = 200
          then (case body r of None \<Rightarrow> (Inl JSONDecodeError, w') | Some j \<Rightarrow> (Inr j, w'))
          else (Inr JNull, w'))"

text \<open>
  \<^verbatim>\<open>d.get(key, dflt)\<close>. On a value that is not a dictionary the attribute \<^verbatim>\<open>get\<close> does
  not exist and Python raises \<^verbatim>\<open>AttributeError\<close>.
\<close>

definition dict_get :: "json \<Rightarrow> string \<Rightarrow> json \<Rightarrow> error + json" where
  "dict_get d k dflt =
     (case d of
        JObj kvs \<Rightarrow> Inr (case map_of kvs k of None \<Rightarrow> dflt | Some v \<Rightarrow> v)
      | _ \<Rightarrow> Inl AttributeError)"

text \<open>
  \<^verbatim>\<open>refresh_company_data\<close> (source lines 60 to 76). \<open>now\<close> is the text of
  \<^verbatim>\<open>datetime.now().strftime("%Y-%m-%d")\<close>.
\<close>

definition refresh_company_data ::
  "'w http \<Rightarrow> string \<Rightarrow> string \<Rightarrow> 'w \<Rightarrow> (error + company option) \<times> 'w" where
  "refresh_company_data requests_get now k w =
     (case get_json requests_get (''/company/'' @ k) w of
        (Inl e, w') \<Rightarrow> (Inl e, w')
      | (Inr profile, w') \<Rightarrow>
          if \<not> truthy profile then (Inr None, w')
          else
            (case dict_get profile ''accounts'' (JObj []) of
               Inl e \<Rightarrow> (Inl e, w')
             | Inr accounts \<Rightarrow>
            (case dict_get profile ''confirmation_statement'' (JObj []) of
               Inl e \<Rightarrow> (Inl e, w')
             | Inr cs \<Rightarrow>
            (case dict_get profile ''company_name'' JNull of
               Inl e \<Rightarrow> (Inl e, w')
             | Inr company_name \<Rightarrow>
            (case dict_get profile ''company_status'' JNull of
               Inl e \<Rightarrow> (Inl e, w')
             | Inr company_status \<Rightarrow>
            (case dict_get accounts ''next_due'' (JStr ''N/A'') of
               Inl e \<Rightarrow> (Inl e, w')
             | Inr acc_next_due \<Rightarrow>
            (case dict_get cs ''next_due'' (JStr ''N/A'') of
               Inl e \<Rightarrow> (Inl e, w')
             | Inr cs_next_due \<Rightarrow>
                 (Inr (Some \<lparr>crn = k, name = company_name, status = company_status,
                              accounts_due = acc_next_due, cs_due = cs_next_due,
                              last_updated = now\<rparr>), w'))))))))"

text \<open>
  \<^verbatim>\<open>refresh_all_companies\<close> (source lines 79 to 87). The loop appends every answer that
  is true: a record has six keys, so every answer but \<^verbatim>\<open>None\<close>. An exception leaves the
  loop before the file is written.
\<close>

fun refresh_loop ::
  "'w http \<Rightarrow> string \<Rightarrow> company list \<Rightarrow> company list \<Rightarrow> 'w \<Rightarrow> (error + company list) \<times> 'w" where
  "refresh_loop requests_get now [] updated_list w = (Inr updated_list, w)"
| "refresh_loop requests_get now (c # cs) updated_list w =
     (case refresh_company_data requests_get now (crn c) w of
        (Inl e, w') \<Rightarrow> (Inl e, w')
      | (Inr None, w') \<Rightarrow> refresh_loop requests_get now cs updated_list w'
      | (Inr (Some updated), w') \<Rightarrow> refresh_loop requests_get now cs (updated_list @ [updated]) w')"

definition refresh_all_companies ::
  "'w http \<Rightarrow> string \<Rightarrow> companies_file \<Rightarrow> 'w \<Rightarrow> (error + nat) \<times> companies_file \<times> 'w" where
  "refresh_all_companies requests_get now f w =
     (let companies = load_companies f in
        case refresh_loop requests_get now companies [] w of
          (Inl e, w') \<Rightarrow> (Inl e, f, w')
        | (Inr updated_list, w') \<Rightarrow> (Inr (length updated_list), save_companies updated_list, w'))"

section \<open>The portfolio page\<close>

text \<open>
  The page "My Companies" is module-level code (source lines 369 to 493), run when the
  saved list is not empty. Its blocks are the functions below, each named in its text.
\<close>

text \<open>The choices of the radio control, and the filter block (source lines 383 to 395).\<close>

definition filter_choices :: "string list" where
  "filter_choices = [''All'', ''Overdue'', ''Due in 7 days'', ''Due in 30 days'', ''OK'']"

definition filtered_companies :: "date \<Rightarrow> string \<Rightarrow> company list \<Rightarrow> company list" where
  "filtered_companies today filter_choice companies =
     (if filter_choice = ''All'' then companies
      else [c \<leftarrow> companies. company_overall_status today c = filter_choice])"

text \<open>
  The summary block (source lines 398 to 415): four counters, and a loop over the
  companies with an inner loop over the two offsets of each. \<open>count_offset\<close> is the body
  of the inner loop, with \<^verbatim>\<open>continue\<close> for \<^verbatim>\<open>None\<close>.
\<close>

record summary =
  total :: nat
  due_30 :: nat
  due_7 :: nat
  overdue :: nat

definition count_offset :: "int option \<Rightarrow> summary \<Rightarrow> summary" where
  "count_offset d s =
     (case d of
        None \<Rightarrow> s
      | Some n \<Rightarrow>
          if n < 0 then s\<lparr>overdue := overdue s + 1\<rparr>
          else if n \<le> 7 then s\<lparr>due_7 := due_7 s + 1\<rparr>
          else if n \<le> 30 then s\<lparr>due_30 := due_30 s + 1\<rparr>
          else s)"

fun summary_loop :: "date \<Rightarrow> company list \<Rightarrow> summary \<Rightarrow> summary" where
  "summary_loop today [] s = s"
| "summary_loop today (c # cs) s =
     summary_loop today cs
       (fold count_offset
          [days_remaining today (accounts_due c), days_remaining today (cs_due c)] s)"

definition summary_stats :: "date \<Rightarrow> company list \<Rightarrow> summary" where
  "summary_stats today companies =
     summary_loop today companies
       \<lparr>total = length companies, due_30 = 0, due_7 = 0, overdue = 0\<rparr>"

text \<open>The table rows (source lines 418 to 437), one for each company that passed the filter.\<close>

record row =
  company_name :: json
  company_number :: string
  accounts_due_date :: json
  accounts_deadline :: string
  accounts_status :: string
  cs01_due_date :: json
  cs01_deadline :: string
  cs01_status :: string
  company_status :: json
  row_last_updated :: string

definition table_row :: "date \<Rightarrow> company \<Rightarrow> row" where
  "table_row today c =
     (let acc_due = accounts_due c; cs_due' = cs_due c in
        \<lparr>company_name = name c,
         company_number = crn c,
         accounts_due_date = acc_due,
         accounts_deadline = relative_label today acc_due,
         accounts_status = status_label today acc_due,
         cs01_due_date = cs_due',
         cs01_deadline = relative_label today cs_due',
         cs01_status = status_label today cs_due',
         company_status = status c,
         row_last_updated = last_updated c\<rparr>)"

definition table_rows :: "date \<Rightarrow> company list \<Rightarrow> row list" where
  "table_rows today companies = map (table_row today) companies"

text \<open>
  The frame, \<^verbatim>\<open>pd.DataFrame(rows)\<close> (source line 439). The repository names no version
  of pandas, and what the column "CS01 Due Date" holds for a due date \<^verbatim>\<open>None\<close> depends
  on it: up to version 2 the frame keeps \<^verbatim>\<open>None\<close>; from version 3 a column whose other
  values are strings holds the missing value \<^verbatim>\<open>NaN\<close> in its place. \<open>none_as_nan\<close>
  says which of the two the frame does. Every other value is held as it is.
\<close>

datatype cell = Cell json | NaN

definition frame_cell :: "bool \<Rightarrow> json \<Rightarrow> cell" where
  "frame_cell none_as_nan v = (if none_as_nan \<and> v = JNull then NaN else Cell v)"

text \<open>
  The sort block (source lines 452 to 456). Its lambda is applied to the cells of the
  column: 99999 for \<^verbatim>\<open>None\<close>, \<^verbatim>\<open>"N/A"\<close> and \<^verbatim>\<open>""\<close>, and \<^verbatim>\<open>days_until\<close> of every
  other cell. That is \<^verbatim>\<open>None\<close> for a due date that does not parse, and for \<^verbatim>\<open>NaN\<close>,
  which is none of the three, is true, is not "N/A" and makes \<^verbatim>\<open>strptime\<close> raise
  \<^verbatim>\<open>TypeError\<close>. The column \<^verbatim>\<open>__cs_days__\<close> holds such a \<^verbatim>\<open>None\<close> as a missing
  value.
\<close>

definition cs_days :: "date \<Rightarrow> cell \<Rightarrow> int option" where
  "cs_days today x =
     (if x \<notin> set [Cell JNull, Cell (JStr ''N/A''), Cell (JStr '''')]
      then (case x of Cell v \<Rightarrow> days_until today v | NaN \<Rightarrow> None)
      else Some 99999)"

text \<open>
  \<^verbatim>\<open>DataFrame.sort_values\<close> on one column, ascending, with its default arguments: the
  rows without a missing value are put in the order that the library's \<^verbatim>\<open>argsort\<close>
  gives for their keys, and the rows with a missing value follow in their order in the
  frame (\<^verbatim>\<open>na_position='last'\<close>). The default sort kind is \<^verbatim>\<open>'quicksort'\<close>, which the
  library does not promise to be stable, so \<open>argsort\<close> is a parameter: from a list of
  keys to the list of positions in sorted order.
\<close>

definition sort_values :: "(int list \<Rightarrow> nat list) \<Rightarrow> ('a \<Rightarrow> int option) \<Rightarrow> 'a list \<Rightarrow> 'a list" where
  "sort_values argsort key df =
     (let idx = [0..<length df];
          non_nan_idx = [i \<leftarrow> idx. key (df ! i) \<noteq> None];
          nan_idx = [i \<leftarrow> idx. key (df ! i) = None];
          non_nans = [k. Some k \<leftarrow> map (\<lambda>i. key (df ! i)) non_nan_idx];
          indexer = map (\<lambda>j. non_nan_idx ! j) (argsort non_nans) @ nan_idx
      in map (\<lambda>i. df ! i) indexer)"

text \<open>The value of the column \<^verbatim>\<open>__cs_days__\<close> in a row, and the sort by that column.\<close>

definition cs_days_column :: "bool \<Rightarrow> date \<Rightarrow> row \<Rightarrow> int option" where
  "cs_days_column none_as_nan today r = cs_days today (frame_cell none_as_nan (cs01_due_date r))"

definition sort_by_cs_days ::
  "(int list \<Rightarrow> nat list) \<Rightarrow> bool \<Rightarrow> date \<Rightarrow> row list \<Rightarrow> row list" where
  "sort_by_cs_days argsort none_as_nan today df =
     (if df \<noteq> [] then sort_values argsort (cs_days_column none_as_nan today) df else df)"

text \<open>
  A stable \<open>argsort\<close>, by insertion: the sort kind that keeps rows with equal keys in
  their order.
\<close>

definition stable_argsort :: "int list \<Rightarrow> nat list" where
  "stable_argsort ks = sort_key (\<lambda>i. ks ! i) [0..<length ks]"

section \<open>Example data\<close>

text \<open>The second of March 2024, the day of the examples.\<close>

definition day0 :: date where
  "day0 = \<lparr>year = 2024, month = 3, day = 2\<rparr>"

text \<open>Three saved companies with the offsets (-5, 10), (3, 3) and (None, 40) on that day.\<close>

definition alpha :: company where
  "alpha = \<lparr>crn = ''00000001'', name = JStr ''ALPHA LTD'', status = JStr ''active'',
            accounts_due = JStr ''2024-02-26'', cs_due = JStr ''2024-03-12'',
            last_updated = ''2024-03-01''\<rparr>"

definition bravo :: company where
  "bravo = \<lparr>crn = ''00000002'', name = JStr ''BRAVO LTD'', status = JStr ''active'',
            accounts_due = JStr ''2024-03-05'', cs_due = JStr ''2024-03-05'',
            last_updated = ''2024-03-01''\<rparr>"

definition charlie :: company where
  "charlie = \<lparr>crn = ''00000003'', name = JStr ''CHARLIE LTD'', status = JStr ''dissolved'',
              accounts_due = JStr ''N/A'', cs_due = JStr ''2024-04-11'',
              last_updated = ''2024-03-01''\<rparr>"

text \<open>
  A registry that knows the first and the third example company and answers 404 for
  every other request. Its world is the list of the addresses requested so far.
\<close>

definition alpha_profile :: json where
  "alpha_profile = JObj
     [(''company_name'', JStr ''ALPHA LTD''), (''company_status'', JStr ''active''),
      (''accounts'', JObj [(''next_due'', JStr ''2024-12-31'')]),
      (''confirmation_statement'', JObj [(''next_due'', JStr ''2024-06-30'')])]"

definition charlie_profile :: json where
  "charlie_profile = JObj
     [(''company_name'', JStr ''CHARLIE LTD''), (''company_status'', JStr ''dissolved'')]"

definition example_registry :: "string list http" where
  "example_registry url w =
     (Inr (if url = BASE_URL @ ''/company/00000001''
           then \<lparr>status_code = 200, body = Some alpha_profile\<rparr>
           else if url = BASE_URL @ ''/company/00000003''
           then \<lparr>status_code = 200, body = Some charlie_profile\<rparr>
           else \<lparr>status_code = 404, body = Some (JObj [(''errors'', JArr [])])\<rparr>),
      w @ [url])"


definition example_fetch :: "string \<Rightarrow> string list \<Rightarrow> company option \<times> string list" where
  "example_fetch k w =
     (if k = ''00000001''
      then Some \<lparr>crn = k, name = JStr ''ALPHA LTD'', status = JStr ''active'',
                 accounts_due = JStr ''2024-12-31'', cs_due = JStr ''2024-06-30'',
                 last_updated = ''2024-03-02''\<rparr>
      else if k = ''00000003''
      then Some \<lparr>crn = k, name = JStr ''CHARLIE LTD'', status = JStr ''dissolved'',
                 accounts_due = JStr ''N/A'', cs_due = JStr ''N/A'',
                 last_updated = ''2024-03-02''\<rparr>
      else None,
      w @ [BASE_URL @ ''/company/'' @ k])"

text \<open>
  A fourth company whose confirmation statement is due in the year 2400, and two
  variants of the third: one without a statement date, one with a date in words.
\<close>

definition delta :: company where
  "delta = \<lparr>crn = ''00000004'', name = JStr ''DELTA LTD'', status = JStr ''active'',
            accounts_due = JStr ''2024-09-30'', cs_due = JStr ''2400-01-01'',
            last_updated = ''2024-03-01''\<rparr>"

definition undated :: company where
  "undated = charlie\<lparr>cs_due := JStr ''N/A''\<rparr>"

definition worded :: company where
  "worded = charlie\<lparr>cs_due := JStr ''30 June''\<rparr>"

text \<open>
  A fifth company with the statement date of the second, a sixth whose statement date
  is \<^verbatim>\<open>None\<close>, and a table of eight rows: two statements due in three days, one in
  2400, one "N/A", one \<^verbatim>\<open>None\<close>, one with a date in words.
\<close>

definition echo :: company where
  "echo = bravo\<lparr>crn := ''00000005'', name := JStr ''ECHO LTD''\<rparr>"

definition dateless :: company where
  "dateless = charlie\<lparr>crn := ''00000006'', name := JStr ''FOXTROT LTD'', cs_due := JNull\<rparr>"

definition example_table :: "row list" where
  "example_table
     = table_rows day0 [alpha, dateless, worded, undated, delta, echo, charlie, bravo]"

section \<open>Notions of the specification\<close>

text \<open>
  The thresholds of the specification's section 4.1 on a day offset: below 0 overdue,
  0 to 7 due in 7 days, 8 to 30 due in 30 days, above 30 OK; written with the labels of
  \<open>company_overall_status\<close>.
\<close>

definition threshold_class :: "int \<Rightarrow> string" where
  "threshold_class d =
     (if d < 0 then ''Overdue''
      else if 0 \<le> d \<and> d \<le> 7 then ''Due in 7 days''
      else if 8 \<le> d \<and> d \<le> 30 then ''Due in 30 days''
      else ''OK'')"

text \<open>
  The order of urgency of the specification's section 3:
  Unknown < OK < DueIn30Days < DueIn7Days < Overdue.
\<close>

definition urgency_rank :: "string \<Rightarrow> nat" where
  "urgency_rank l =
     (if l = ''Overdue'' then 4
      else if l = ''Due in 7 days'' then 3
      else if l = ''Due in 30 days'' then 2
      else if l = ''OK'' then 1
      else 0)"

text \<open>The class of one deadline: the label of \<open>status_label\<close> after its emoji and space.\<close>

definition deadline_class :: "date \<Rightarrow> json \<Rightarrow> string" where
  "deadline_class today v = tl (dropWhile (\<lambda>c. c \<noteq> CHR '' '') (status_label today v))"

text \<open>The offsets the summary loop visits: both deadlines of every company, in order.\<close>

definition deadline_offsets :: "date \<Rightarrow> company list \<Rightarrow> int option list" where
  "deadline_offsets today companies =
     concat (map (\<lambda>c. [days_remaining today (accounts_due c), days_remaining today (cs_due c)])
       companies)"

definition defined_offsets :: "date \<Rightarrow> company list \<Rightarrow> int list" where
  "defined_offsets today companies = [n. Some n \<leftarrow> deadline_offsets today companies]"



text \<open>
  The keys that \<open>argsort\<close> is given for a frame: the values of the column that are not
  missing, in the order of the rows. A list of positions keeps ties when positions with
  equal keys stay in increasing order, which is what a stable sort kind does.
\<close>

definition column_keys :: "bool \<Rightarrow> date \<Rightarrow> row list \<Rightarrow> int list" where
  "column_keys none_as_nan today df = [k. Some k \<leftarrow> map (cs_days_column none_as_nan today) df]"

definition keeps_ties :: "int list \<Rightarrow> nat list \<Rightarrow> bool" where
  "keeps_ties ks p = sorted_wrt (\<lambda>i j. ks ! i = ks ! j \<longrightarrow> i < j) p"

section \<open>Properties\<close>

lemmas parse_defs = strptime_def strptime_ymd_def match_ymd_def year_alts_def dash_def
  month_alts_def day_alts_def digit_def digit_val_def make_date_def days_in_month_def is_leap_def

lemmas ordinal_defs = toordinal_def days_before_year_def days_before_month_def

lemma days_until_day0:
  "days_until day0 (JStr ''2024-03-01'') = Some (- 1)"
  "days_until day0 (JStr ''2024-03-02'') = Some 0"
  "days_until day0 (JStr ''2024-03-09'') = Some 7"
  "days_until day0 (JStr ''2024-03-10'') = Some 8"
  "days_until day0 (JStr ''2024-04-01'') = Some 30"
  "days_until day0 (JStr ''2024-04-02'') = Some 31"
  "days_until day0 (JStr ''2024-02-26'') = Some (- 5)"
  "days_until day0 (JStr ''2024-03-12'') = Some 10"
  "days_until day0 (JStr ''2024-03-05'') = Some 3"
  "days_until day0 (JStr ''2024-04-11'') = Some 40"
  "days_until day0 (JStr ''N/A'') = None"
  "days_until day0 (JStr '''') = None"
  "days_until day0 JNull = None"
  "days_until day0 (JStr ''2024-02-30'') = None"
  "days_until day0 (JStr ''01/03/2024'') = None"
  by (simp_all add: day0_def days_until_def parse_defs ordinal_defs)

lemma strptime_malformed: "strptime (JStr ''01/03/2024'') = Inl ValueError"
  by (simp add: parse_defs)

subsection \<open>The status of one deadline\<close>

text \<open>
  C1. For every due date, \<open>status_label\<close> gives the label of "N/A" when \<open>days_until\<close>
  is \<open>None\<close>, of "Overdue" for an offset below 0, of "Due in 7 days" for 0 to 7, of
  "Due in 30 days" for 8 to 30 and of "OK" above 30. The offset is \<open>None\<close> for the
  empty string, for "N/A" and for every value the parser rejects. The five labels are
  different from each other, so the label changes exactly between -1 and 0, between 7 and
  8 and between 30 and 31.
\<close>

theorem status_label_classes:
  "(days_until today v = None \<longrightarrow> status_label today v = white_circle @ '' N/A'') \<and>
   (\<forall>d. days_until today v = Some d \<longrightarrow>
      (d < 0 \<longrightarrow> status_label today v = red_circle @ '' Overdue'') \<and>
      (0 \<le> d \<and> d \<le> 7 \<longrightarrow> status_label today v = orange_circle @ '' Due in 7 days'') \<and>
      (8 \<le> d \<and> d \<le> 30 \<longrightarrow> status_label today v = yellow_circle @ '' Due in 30 days'') \<and>
      (30 < d \<longrightarrow> status_label today v = green_circle @ '' OK'')) \<and>
   (v = JStr '''' \<or> v = JStr ''N/A'' \<or> (\<exists>e. strptime v = Inl e) \<longrightarrow> days_until today v = None) \<and>
   distinct [white_circle @ '' N/A'', red_circle @ '' Overdue'', orange_circle @ '' Due in 7 days'',
             yellow_circle @ '' Due in 30 days'', green_circle @ '' OK'']"
  by (auto simp: status_label_def days_until_def white_circle_def red_circle_def orange_circle_def
      yellow_circle_def green_circle_def)

text \<open>
  The six offsets next to the boundaries, the two sentinels and a date in another format,
  on the second of March 2024.
\<close>

theorem status_label_classes_witness:
  "days_until day0 (JStr ''2024-03-01'') = Some (- 1) \<and>
   status_label day0 (JStr ''2024-03-01'') = red_circle @ '' Overdue'' \<and>
   days_until day0 (JStr ''2024-03-02'') = Some 0 \<and>
   status_label day0 (JStr ''2024-03-02'') = orange_circle @ '' Due in 7 days'' \<and>
   days_until day0 (JStr ''2024-03-09'') = Some 7 \<and>
   status_label day0 (JStr ''2024-03-09'') = orange_circle @ '' Due in 7 days'' \<and>
   days_until day0 (JStr ''2024-03-10'') = Some 8 \<and>
   status_label day0 (JStr ''2024-03-10'') = yellow_circle @ '' Due in 30 days'' \<and>
   days_until day0 (JStr ''2024-04-01'') = Some 30 \<and>
   status_label day0 (JStr ''2024-04-01'') = yellow_circle @ '' Due in 30 days'' \<and>
   days_until day0 (JStr ''2024-04-02'') = Some 31 \<and>
   status_label day0 (JStr ''2024-04-02'') = green_circle @ '' OK'' \<and>
   status_label day0 (JStr ''N/A'') = white_circle @ '' N/A'' \<and>
   status_label day0 (JStr '''') = white_circle @ '' N/A'' \<and>
   strptime (JStr ''01/03/2024'') = Inl ValueError \<and>
   status_label day0 (JStr ''01/03/2024'') = white_circle @ '' N/A''"
  using status_label_classes [of day0 "JStr ''2024-03-01''"]
    status_label_classes [of day0 "JStr ''2024-03-02''"]
    status_label_classes [of day0 "JStr ''2024-03-09''"]
    status_label_classes [of day0 "JStr ''2024-03-10''"]
    status_label_classes [of day0 "JStr ''2024-04-01''"]
    status_label_classes [of day0 "JStr ''2024-04-02''"]
    status_label_classes [of day0 "JStr ''N/A''"]
    status_label_classes [of day0 "JStr ''''"]
    status_label_classes [of day0 "JStr ''01/03/2024''"]
  by (simp add: days_until_day0 strptime_malformed)

subsection \<open>The relative label\<close>

text \<open>
  C5, as the specification states it: on 2024-03-02 the label of "2024-01-01" would be
  "in 2 months". It is not: the first of January is before the second of March.
\<close>

theorem relative_label_example_counterexample:
  "relative_label \<lparr>year = 2024, month = 3, day = 2\<rparr> (JStr ''2024-01-01'') \<noteq> ''in 2 months''"
  by (simp add: relative_label_def days_until_def parse_defs ordinal_defs str_int_def)

text \<open>
  C5, amended: on 2024-03-02 the date "2024-01-01" is 61 days in the past (2024 is a
  leap year), and \<open>relative_label\<close> returns "2 months ago", 61 div 30 being 2.
\<close>

theorem relative_label_example:
  "days_until \<lparr>year = 2024, month = 3, day = 2\<rparr> (JStr ''2024-01-01'') = Some (- 61) \<and>
   relative_label \<lparr>year = 2024, month = 3, day = 2\<rparr> (JStr ''2024-01-01'') = ''2 months ago''"
  by (simp add: relative_label_def days_until_def parse_defs ordinal_defs str_int_def)

text \<open>The same example with the day named \<open>day0\<close>.\<close>

theorem relative_label_example_witness:
  "relative_label day0 (JStr ''2024-01-01'') = ''2 months ago''"
  using relative_label_example by (simp add: day0_def)

subsection \<open>The overall status of a company\<close>

lemma deadline_class_eq:
  "deadline_class today v =
     (case days_until today v of None \<Rightarrow> ''N/A'' | Some d \<Rightarrow> threshold_class d)"
  by (simp add: deadline_class_def status_label_def threshold_class_def white_circle_def
      red_circle_def orange_circle_def yellow_circle_def green_circle_def split: option.split)

text \<open>
  C2. \<open>company_overall_status\<close> is "N/A" exactly when both offsets are \<open>None\<close>.
  Otherwise it is the class that the thresholds of section 4.1 give to the smallest
  offset that is defined. In the order of urgency, that class is the greater of the
  classes of the two deadlines.
\<close>

theorem company_overall_status_min:
  "(company_overall_status today c = ''N/A'' \<longleftrightarrow>
      days_until today (accounts_due c) = None \<and> days_until today (cs_due c) = None) \<and>
   (\<forall>a b. days_until today (accounts_due c) = Some a \<and> days_until today (cs_due c) = Some b \<longrightarrow>
      company_overall_status today c = threshold_class (min a b)) \<and>
   (\<forall>a. days_until today (accounts_due c) = Some a \<and> days_until today (cs_due c) = None \<longrightarrow>
      company_overall_status today c = threshold_class a) \<and>
   (\<forall>b. days_until today (accounts_due c) = None \<and> days_until today (cs_due c) = Some b \<longrightarrow>
      company_overall_status today c = threshold_class b) \<and>
   urgency_rank (company_overall_status today c) =
     max (urgency_rank (deadline_class today (accounts_due c)))
         (urgency_rank (deadline_class today (cs_due c)))"
proof -
  obtain x y where xy: "days_until today (accounts_due c) = x" "days_until today (cs_due c) = y"
    by simp
  show ?thesis
  proof (cases x)
    case None
    note xn = this
    show ?thesis
    proof (cases y)
      case None
      with xn xy show ?thesis
        by (simp add: company_overall_status_def days_remaining_def deadline_class_eq urgency_rank_def)
    next
      case (Some b)
      with xn xy show ?thesis
        by (simp add: company_overall_status_def days_remaining_def deadline_class_eq
            urgency_rank_def threshold_class_def)
    qed
  next
    case (Some a)
    note xs = this
    show ?thesis
    proof (cases y)
      case None
      with xs xy show ?thesis
        by (simp add: company_overall_status_def days_remaining_def deadline_class_eq
            urgency_rank_def threshold_class_def)
    next
      case (Some b)
      with xs xy show ?thesis
        by (simp add: company_overall_status_def days_remaining_def deadline_class_eq
            urgency_rank_def threshold_class_def min_def)
    qed
  qed
qed

text \<open>
  The three example companies: accounts five days overdue beside a statement due in ten
  days; both deadlines in three days; no accounts date and a statement due in forty days.
  A company without any date is "N/A".
\<close>

theorem company_overall_status_min_witness:
  "days_until day0 (accounts_due alpha) = Some (- 5) \<and> days_until day0 (cs_due alpha) = Some 10 \<and>
   company_overall_status day0 alpha = ''Overdue'' \<and>
   urgency_rank (deadline_class day0 (accounts_due alpha)) = 4 \<and>
   urgency_rank (deadline_class day0 (cs_due alpha)) = 2 \<and>
   company_overall_status day0 bravo = ''Due in 7 days'' \<and>
   days_until day0 (accounts_due charlie) = None \<and> days_until day0 (cs_due charlie) = Some 40 \<and>
   company_overall_status day0 charlie = ''OK'' \<and>
   company_overall_status day0 (charlie\<lparr>cs_due := JNull\<rparr>) = ''N/A'' \<and>
   company_overall_status day0 (charlie\<lparr>accounts_due := JStr ''2024-03-12'', cs_due := JStr ''''\<rparr>)
     = ''Due in 30 days''"
  using company_overall_status_min [of day0 alpha]
    company_overall_status_min [of day0 bravo]
    company_overall_status_min [of day0 charlie]
    company_overall_status_min [of day0 "charlie\<lparr>cs_due := JNull\<rparr>"]
    company_overall_status_min
      [of day0 "charlie\<lparr>accounts_due := JStr ''2024-03-12'', cs_due := JStr ''''\<rparr>"]
  by (simp add: alpha_def bravo_def charlie_def days_until_day0 threshold_class_def
      deadline_class_eq urgency_rank_def)

subsection \<open>The summary counters\<close>

lemma count_offset_fields:
  "total (count_offset d s) = total s"
  "overdue (count_offset d s) = overdue s + length [n. Some n \<leftarrow> [d], n < 0]"
  "due_7 (count_offset d s) = due_7 s + length [n. Some n \<leftarrow> [d], 0 \<le> n \<and> n \<le> 7]"
  "due_30 (count_offset d s) = due_30 s + length [n. Some n \<leftarrow> [d], 8 \<le> n \<and> n \<le> 30]"
  by (cases d; simp add: count_offset_def)+

lemma summary_loop_fields:
  "total (summary_loop today cs s) = total s \<and>
   overdue (summary_loop today cs s) = overdue s + length [n \<leftarrow> defined_offsets today cs. n < 0] \<and>
   due_7 (summary_loop today cs s) = due_7 s + length [n \<leftarrow> defined_offsets today cs. 0 \<le> n \<and> n \<le> 7] \<and>
   due_30 (summary_loop today cs s) = due_30 s + length [n \<leftarrow> defined_offsets today cs. 8 \<le> n \<and> n \<le> 30]"
proof (induction cs arbitrary: s)
  case Nil
  show ?case by (simp add: defined_offsets_def deadline_offsets_def)
next
  case (Cons c cs)
  show ?case
    by (simp add: Cons.IH count_offset_fields defined_offsets_def deadline_offsets_def
        split: option.split)
qed

lemma length_defined_offsets: "length (defined_offsets today cs) \<le> 2 * length cs"
  by (induction cs) (simp_all add: defined_offsets_def deadline_offsets_def split: option.split)

lemma three_filters:
  "length [n \<leftarrow> xs. n < 0] + length [n \<leftarrow> xs. 0 \<le> n \<and> n \<le> 7] + length [n \<leftarrow> xs. 8 \<le> n \<and> n \<le> 30]
     + length [n \<leftarrow> xs. 30 < n] = length (xs :: int list)"
  by (induction xs) auto

text \<open>
  C3. \<open>total\<close> is the number of companies. The loop visits the two offsets of every
  company; an offset that is \<open>None\<close> is skipped, and the defined ones are counted:
  \<open>overdue\<close> those below 0, \<open>due_7\<close> those from 0 to 7, \<open>due_30\<close> those from 8 to 30.
  With those above 30, which no counter takes, the three counters add up to the number
  of defined offsets, which is at most two for each company.
\<close>

theorem summary_stats_counts:
  "total (summary_stats today companies) = length companies \<and>
   length (deadline_offsets today companies) = 2 * length companies \<and>
   overdue (summary_stats today companies) = length [n \<leftarrow> defined_offsets today companies. n < 0] \<and>
   due_7 (summary_stats today companies)
     = length [n \<leftarrow> defined_offsets today companies. 0 \<le> n \<and> n \<le> 7] \<and>
   due_30 (summary_stats today companies)
     = length [n \<leftarrow> defined_offsets today companies. 8 \<le> n \<and> n \<le> 30] \<and>
   overdue (summary_stats today companies) + due_7 (summary_stats today companies)
       + due_30 (summary_stats today companies)
       + length [n \<leftarrow> defined_offsets today companies. 30 < n]
     = length (defined_offsets today companies) \<and>
   overdue (summary_stats today companies) + due_7 (summary_stats today companies)
       + due_30 (summary_stats today companies) \<le> 2 * length companies"
proof -
  let ?s = "summary_stats today companies"
  let ?xs = "defined_offsets today companies"
  have f: "total ?s = length companies"
    "overdue ?s = length [n \<leftarrow> ?xs. n < 0]"
    "due_7 ?s = length [n \<leftarrow> ?xs. 0 \<le> n \<and> n \<le> 7]"
    "due_30 ?s = length [n \<leftarrow> ?xs. 8 \<le> n \<and> n \<le> 30]"
    using summary_loop_fields [of today companies] by (simp_all add: summary_stats_def)
  have l: "length (deadline_offsets today companies) = 2 * length companies"
    by (induction companies) (simp_all add: deadline_offsets_def)
  have sum: "overdue ?s + due_7 ?s + due_30 ?s + length [n \<leftarrow> ?xs. 30 < n] = length ?xs"
    using three_filters [of ?xs] by (simp add: f)
  have "overdue ?s + due_7 ?s + due_30 ?s \<le> 2 * length companies"
    using sum length_defined_offsets [of today companies] by linarith
  with f l sum show ?thesis by simp
qed

lemma offsets_examples:
  "days_remaining day0 (accounts_due alpha) = Some (- 5)"
  "days_remaining day0 (cs_due alpha) = Some 10"
  "days_remaining day0 (accounts_due bravo) = Some 3"
  "days_remaining day0 (cs_due bravo) = Some 3"
  "days_remaining day0 (accounts_due charlie) = None"
  "days_remaining day0 (cs_due charlie) = Some 40"
  by (simp_all add: days_remaining_def alpha_def bravo_def charlie_def days_until_day0)

text \<open>The counters of the three example companies.\<close>

theorem summary_stats_counts_witness:
  "defined_offsets day0 [alpha, bravo, charlie] = [- 5, 10, 3, 3, 40] \<and>
   total (summary_stats day0 [alpha, bravo, charlie]) = 3 \<and>
   overdue (summary_stats day0 [alpha, bravo, charlie]) = 1 \<and>
   due_7 (summary_stats day0 [alpha, bravo, charlie]) = 2 \<and>
   due_30 (summary_stats day0 [alpha, bravo, charlie]) = 1"
  using summary_stats_counts [of day0 "[alpha, bravo, charlie]"]
  by (simp add: defined_offsets_def deadline_offsets_def offsets_examples)

text \<open>
  C4, as the specification states it: three companies with the offsets (-5, 10), (3, 3)
  and (None, 40) would give \<open>overdue = 1\<close>, \<open>due_7 = 3\<close> and \<open>due_30 = 1\<close>. The example
  companies have these offsets, and their counters are not these.
\<close>

theorem summary_example_counterexample:
  "days_remaining day0 (accounts_due alpha) = Some (- 5) \<and>
   days_remaining day0 (cs_due alpha) = Some 10 \<and>
   days_remaining day0 (accounts_due bravo) = Some 3 \<and>
   days_remaining day0 (cs_due bravo) = Some 3 \<and>
   days_remaining day0 (accounts_due charlie) = None \<and>
   days_remaining day0 (cs_due charlie) = Some 40 \<and>
   \<not> (overdue (summary_stats day0 [alpha, bravo, charlie]) = 1 \<and>
      due_7 (summary_stats day0 [alpha, bravo, charlie]) = 3 \<and>
      due_30 (summary_stats day0 [alpha, bravo, charlie]) = 1)"
  by (simp add: summary_stats_def count_offset_def offsets_examples)

text \<open>
  C4, amended: three companies with the offsets (-5, 10), (3, 3) and (None, 40) give
  \<open>total = 3\<close>, \<open>overdue = 1\<close>, \<open>due_7 = 2\<close> (the two offsets of 3) and \<open>due_30 = 1\<close>.
\<close>

theorem summary_example:
  assumes "days_remaining today (accounts_due c1) = Some (- 5)"
    and "days_remaining today (cs_due c1) = Some 10"
    and "days_remaining today (accounts_due c2) = Some 3"
    and "days_remaining today (cs_due c2) = Some 3"
    and "days_remaining today (accounts_due c3) = None"
    and "days_remaining today (cs_due c3) = Some 40"
  shows "summary_stats today [c1, c2, c3] = \<lparr>total = 3, due_30 = 1, due_7 = 2, overdue = 1\<rparr>"
  using assms by (simp add: summary_stats_def count_offset_def)

theorem summary_example_witness:
  "summary_stats day0 [alpha, bravo, charlie] = \<lparr>total = 3, due_30 = 1, due_7 = 2, overdue = 1\<rparr>"
  by (rule summary_example [of day0 alpha bravo charlie]) (rule offsets_examples)+

subsection \<open>Adding a company\<close>

lemma crn_saved_iff: "crn_saved k cs \<longleftrightarrow> k \<in> crn ` set cs"
  by (induction cs) auto

lemma count_crn_absent: "k \<notin> crn ` set cs \<Longrightarrow> [c \<leftarrow> cs. crn c = k] = []"
  by (induction cs) auto

lemma count_crn_present: "k \<in> crn ` set cs \<Longrightarrow> 1 \<le> length [c \<leftarrow> cs. crn c = k]"
  by (induction cs) auto

text \<open>
  C7. When a stored record has the number of the new record, \<open>add_company\<close> returns
  \<open>False\<close> and leaves the file as it is; otherwise it appends the record, writes the
  file and returns \<open>True\<close>. A second \<open>add_company\<close> with the same number returns
  \<open>False\<close> and changes nothing, and the file then holds exactly one record with that
  number, provided it held at most one before (one record for each number is the
  invariant of the store).
\<close>

theorem add_company_dedup:
  "(crn r \<in> crn ` set (load_companies f) \<longrightarrow> add_company r f = (False, f)) \<and>
   (crn r \<notin> crn ` set (load_companies f) \<longrightarrow>
      add_company r f = (True, save_companies (load_companies f @ [r])) \<and>
      load_companies (snd (add_company r f)) = load_companies f @ [r]) \<and>
   (crn r' = crn r \<longrightarrow>
      add_company r' (snd (add_company r f)) = (False, snd (add_company r f)) \<and>
      (length [c \<leftarrow> load_companies f. crn c = crn r] \<le> 1 \<longrightarrow>
         length [c \<leftarrow> load_companies (snd (add_company r f)). crn c = crn r] = 1))"
proof (cases "crn r \<in> crn ` set (load_companies f)")
  case True
  then have "add_company r f = (False, f)"
    by (simp add: add_company_def crn_saved_iff)
  with True count_crn_present [OF True] show ?thesis
    by (auto simp: add_company_def crn_saved_iff)
next
  case False
  then have "add_company r f = (True, save_companies (load_companies f @ [r]))"
    by (simp add: add_company_def crn_saved_iff)
  with False count_crn_absent [OF False] show ?thesis
    by (auto simp: add_company_def crn_saved_iff load_companies_def save_companies_def)
qed

text \<open>
  The first example company added twice to a file that does not exist yet, the second
  time with another name; and added to a file that holds it.
\<close>

theorem add_company_dedup_witness:
  "add_company alpha None = (True, Some [alpha]) \<and>
   add_company (alpha\<lparr>name := JStr ''ALPHA HOLDINGS''\<rparr>) (Some [alpha]) = (False, Some [alpha]) \<and>
   length [c \<leftarrow> load_companies (Some [alpha]). crn c = crn alpha] = 1 \<and>
   add_company alpha (Some [bravo, alpha]) = (False, Some [bravo, alpha])"
proof -
  have absent: "crn alpha \<notin> crn ` set (load_companies None)"
    and same: "crn (alpha\<lparr>name := JStr ''ALPHA HOLDINGS''\<rparr>) = crn alpha"
    and few: "length [c \<leftarrow> load_companies None. crn c = crn alpha] \<le> 1"
    and present: "crn alpha \<in> crn ` set (load_companies (Some [bravo, alpha]))"
    by (simp_all add: load_companies_def)
  from add_company_dedup [of alpha None "alpha\<lparr>name := JStr ''ALPHA HOLDINGS''\<rparr>"]
    absent same few
  have first: "add_company alpha None = (True, save_companies (load_companies None @ [alpha]))"
    and second: "add_company (alpha\<lparr>name := JStr ''ALPHA HOLDINGS''\<rparr>) (snd (add_company alpha None))
      = (False, snd (add_company alpha None))"
    and one: "length [c \<leftarrow> load_companies (snd (add_company alpha None)). crn c = crn alpha] = 1"
    by blast+
  from add_company_dedup [of alpha "Some [bravo, alpha]"] present
  have third: "add_company alpha (Some [bravo, alpha]) = (False, Some [bravo, alpha])"
    by blast
  from first have stored: "snd (add_company alpha None) = Some [alpha]"
    by (simp add: load_companies_def save_companies_def)
  from first second one third show ?thesis
    unfolding stored by (simp add: load_companies_def save_companies_def)
qed

subsection \<open>The filter\<close>

text \<open>
  C8. The choice "All" returns the companies as they are. Each of the four other choices
  returns the companies whose overall status is the choice, in their order. A company
  whose two offsets are both \<open>None\<close>, whose overall status is therefore "N/A", is
  returned by no choice of the control other than "All".
\<close>

theorem filtered_companies_choice:
  "filtered_companies today ''All'' companies = companies \<and>
   (choice \<in> set [''Overdue'', ''Due in 7 days'', ''Due in 30 days'', ''OK''] \<longrightarrow>
      filtered_companies today choice companies
        = [c \<leftarrow> companies. company_overall_status today c = choice]) \<and>
   (choice \<in> set filter_choices \<and> choice \<noteq> ''All'' \<and>
    days_until today (accounts_due c) = None \<and> days_until today (cs_due c) = None \<longrightarrow>
      company_overall_status today c = ''N/A'' \<and>
      c \<notin> set (filtered_companies today choice companies))"
  by (auto simp: filtered_companies_def filter_choices_def company_overall_status_def
      days_remaining_def)

lemma overall_examples:
  "company_overall_status day0 alpha = ''Overdue''"
  "company_overall_status day0 bravo = ''Due in 7 days''"
  "company_overall_status day0 charlie = ''OK''"
  "company_overall_status day0 (charlie\<lparr>cs_due := JNull\<rparr>) = ''N/A''"
  by (simp_all add: company_overall_status_def days_remaining_def alpha_def bravo_def
      charlie_def days_until_day0)

text \<open>The example companies and one without any date, under three choices.\<close>

theorem filtered_companies_choice_witness:
  "filtered_companies day0 ''All'' [alpha, bravo, charlie\<lparr>cs_due := JNull\<rparr>, charlie]
     = [alpha, bravo, charlie\<lparr>cs_due := JNull\<rparr>, charlie] \<and>
   filtered_companies day0 ''Overdue'' [alpha, bravo, charlie\<lparr>cs_due := JNull\<rparr>, charlie] = [alpha] \<and>
   filtered_companies day0 ''OK'' [alpha, bravo, charlie\<lparr>cs_due := JNull\<rparr>, charlie] = [charlie] \<and>
   charlie\<lparr>cs_due := JNull\<rparr>
     \<notin> set (filtered_companies day0 ''OK'' [alpha, bravo, charlie\<lparr>cs_due := JNull\<rparr>, charlie])"
proof -
  let ?cs = "[alpha, bravo, charlie\<lparr>cs_due := JNull\<rparr>, charlie]"
  have choices: "''Overdue'' \<in> set [''Overdue'', ''Due in 7 days'', ''Due in 30 days'', ''OK'']"
    "''OK'' \<in> set [''Overdue'', ''Due in 7 days'', ''Due in 30 days'', ''OK'']"
    "''OK'' \<in> set filter_choices" "''OK'' \<noteq> ''All''"
    by (simp_all add: filter_choices_def)
  have undated: "days_until day0 (accounts_due (charlie\<lparr>cs_due := JNull\<rparr>)) = None"
    "days_until day0 (cs_due (charlie\<lparr>cs_due := JNull\<rparr>)) = None"
    by (simp_all add: charlie_def days_until_day0)
  from filtered_companies_choice [of day0 ?cs "''Overdue''"] choices
  have a: "filtered_companies day0 ''All'' ?cs = ?cs"
    and b: "filtered_companies day0 ''Overdue'' ?cs
      = [c \<leftarrow> ?cs. company_overall_status day0 c = ''Overdue'']"
    by blast+
  from filtered_companies_choice [of day0 ?cs "''OK''" "charlie\<lparr>cs_due := JNull\<rparr>"]
    choices undated
  have c: "filtered_companies day0 ''OK'' ?cs = [c \<leftarrow> ?cs. company_overall_status day0 c = ''OK'']"
    and d: "charlie\<lparr>cs_due := JNull\<rparr> \<notin> set (filtered_companies day0 ''OK'' ?cs)"
    by blast+
  from a b c d show ?thesis
    by (simp add: overall_examples)
qed

subsection \<open>Refreshing the portfolio\<close>






lemma example_registry_fetch:
  "refresh_company_data example_registry ''2024-03-02'' k w
     = (Inr (fst (example_fetch k w)), snd (example_fetch k w))"
  by (simp add: refresh_company_data_def get_json_def example_registry_def example_fetch_def
      BASE_URL_def alpha_profile_def charlie_profile_def dict_get_def)



lemma distinct_subseq:
  assumes "subseq xs ys" and "distinct ys"
  shows "distinct xs"
  using assms
proof (induction rule: list_emb.induct)
  case (list_emb_Nil ys)
  show ?case by simp
next
  case (list_emb_Cons xs ys y)
  then show ?case by simp
next
  case (list_emb_Cons2 x y xs ys)
  then have "set xs \<subseteq> set ys"
    by (auto dest: list_emb_set)
  with list_emb_Cons2 show ?case by auto
qed

lemma refresh_company_data_crn:
  "refresh_company_data requests_get now k w = (Inr (Some r), w') \<Longrightarrow> crn r = k"
  by (auto simp: refresh_company_data_def split: prod.splits sum.splits if_splits)

lemma refresh_loop_subseq:
  "refresh_loop requests_get now cs updated_list w = (Inr out, w') \<Longrightarrow>
     \<exists>ys. out = updated_list @ ys \<and> subseq (map crn ys) (map crn cs)"
proof (induction cs arbitrary: updated_list w)
  case Nil
  then show ?case by simp
next
  case (Cons c cs)
  obtain res w1 where step: "refresh_company_data requests_get now (crn c) w = (res, w1)"
    by (cases "refresh_company_data requests_get now (crn c) w")
  show ?case
  proof (cases res)
    case (Inl e)
    with step Cons.prems show ?thesis by simp
  next
    case (Inr answer)
    show ?thesis
    proof (cases answer)
      case None
      with step Inr Cons.prems
      have "refresh_loop requests_get now cs updated_list w1 = (Inr out, w')"
        by simp
      from Cons.IH [OF this] show ?thesis by auto
    next
      case (Some u)
      with step Inr have "crn u = crn c"
        by (auto dest: refresh_company_data_crn)
      from Some step Inr Cons.prems
      have "refresh_loop requests_get now cs (updated_list @ [u]) w1 = (Inr out, w')"
        by simp
      from Cons.IH [OF this] obtain ys
        where "out = (updated_list @ [u]) @ ys" "subseq (map crn ys) (map crn cs)"
        by blast
      with \<open>crn u = crn c\<close> have "out = updated_list @ (u # ys)"
        "subseq (map crn (u # ys)) (map crn (c # cs))"
        by simp_all
      then show ?thesis by blast
    qed
  qed
qed

text \<open>
  C10. A record that \<open>refresh_company_data\<close> returns carries the number it was asked
  for. So the numbers in the file after \<open>refresh_all_companies\<close> are a subsequence of
  the numbers in the file before, whether the refresh returns or raises, and when the
  stored numbers are different from each other the numbers after the refresh are too.
\<close>

theorem refresh_keeps_crns_distinct:
  "(refresh_company_data requests_get now k w = (Inr (Some r), w') \<longrightarrow> crn r = k) \<and>
   subseq (map crn (load_companies (fst (snd (refresh_all_companies requests_get now f w)))))
     (map crn (load_companies f)) \<and>
   (distinct (map crn (load_companies f)) \<longrightarrow>
      distinct (map crn (load_companies (fst (snd (refresh_all_companies requests_get now f w))))))"
proof -
  let ?after = "load_companies (fst (snd (refresh_all_companies requests_get now f w)))"
  have sub: "subseq (map crn ?after) (map crn (load_companies f))"
  proof -
    obtain res w1 where loop: "refresh_loop requests_get now (load_companies f) [] w = (res, w1)"
      by (cases "refresh_loop requests_get now (load_companies f) [] w")
    show ?thesis
    proof (cases res)
      case (Inl e)
      with loop show ?thesis by (simp add: refresh_all_companies_def)
    next
      case (Inr out)
      with loop refresh_loop_subseq [of requests_get now "load_companies f" "[]" w out w1]
      show ?thesis
        by (simp add: refresh_all_companies_def load_companies_def save_companies_def)
    qed
  qed
  then have "distinct (map crn (load_companies f)) \<longrightarrow> distinct (map crn ?after)"
    by (blast intro: distinct_subseq)
  with sub show ?thesis
    by (auto dest: refresh_company_data_crn)
qed

text \<open>
  The refresh of the three example companies by the example registry keeps the first
  and the third number.
\<close>

theorem refresh_keeps_crns_distinct_witness:
  "refresh_company_data example_registry ''2024-03-02'' ''00000003'' []
     = (Inr (Some \<lparr>crn = ''00000003'', name = JStr ''CHARLIE LTD'', status = JStr ''dissolved'',
                    accounts_due = JStr ''N/A'', cs_due = JStr ''N/A'',
                    last_updated = ''2024-03-02''\<rparr>), [BASE_URL @ ''/company/00000003'']) \<and>
   distinct (map crn (load_companies (Some [alpha, bravo, charlie]))) \<and>
   distinct (map crn (load_companies (fst (snd
     (refresh_all_companies example_registry ''2024-03-02'' (Some [alpha, bravo, charlie]) [])))))"
proof -
  have d: "distinct (map crn (load_companies (Some [alpha, bravo, charlie])))"
    by (simp add: load_companies_def alpha_def bravo_def charlie_def)
  have r: "refresh_company_data example_registry ''2024-03-02'' ''00000003'' []
     = (Inr (Some \<lparr>crn = ''00000003'', name = JStr ''CHARLIE LTD'', status = JStr ''dissolved'',
                    accounts_due = JStr ''N/A'', cs_due = JStr ''N/A'',
                    last_updated = ''2024-03-02''\<rparr>), [BASE_URL @ ''/company/00000003''])"
    by (simp add: example_registry_fetch example_fetch_def)
  from refresh_keeps_crns_distinct
    [of example_registry "''2024-03-02''" _ "[]" _ _ "Some [alpha, bravo, charlie]"] d
  have "distinct (map crn (load_companies (fst (snd
     (refresh_all_companies example_registry ''2024-03-02'' (Some [alpha, bravo, charlie]) [])))))"
    by blast
  with d r show ?thesis by blast
qed

subsection \<open>The sort by the nearest confirmation statement\<close>

lemma somes_map_key:
  "[k. Some k \<leftarrow> map key xs] = map (the \<circ> key) [r \<leftarrow> xs. key r \<noteq> None]"
  by (induction xs) (auto split: option.split)

lemma somes_keyed:
  "[k. Some k \<leftarrow> map key [r \<leftarrow> xs. key r \<noteq> None]] = [k. Some k \<leftarrow> map key xs]"
  by (induction xs) (auto split: option.split)

lemma rows_at_positions:
  "map (\<lambda>i. xs ! i) [i \<leftarrow> [0..<length xs]. P (xs ! i)] = filter P xs"
proof -
  have "map ((!) xs) (filter (P \<circ> (!) xs) [0..<length xs])
          = filter P (map ((!) xs) [0..<length xs])"
    by (simp add: filter_map)
  then show ?thesis
    by (simp add: map_nth comp_def)
qed

lemma sort_values_eq:
  assumes "set (argsort [k. Some k \<leftarrow> map key df]) \<subseteq> {..<length [k. Some k \<leftarrow> map key df]}"
  shows "sort_values argsort key df
           = map (\<lambda>j. [r \<leftarrow> df. key r \<noteq> None] ! j) (argsort [k. Some k \<leftarrow> map key df])
               @ [r \<leftarrow> df. key r = None]"
proof -
  let ?pos = "[i \<leftarrow> [0..<length df]. key (df ! i) \<noteq> None]"
  let ?keyed = "[r \<leftarrow> df. key r \<noteq> None]"
  let ?ks = "[k. Some k \<leftarrow> map key df]"
  have keyed: "map (\<lambda>i. df ! i) ?pos = ?keyed"
    by (rule rows_at_positions)
  have "length ?pos = length (map (\<lambda>i. df ! i) ?pos)"
    by (simp only: length_map)
  also have "\<dots> = length ?keyed"
    by (simp only: keyed)
  also have "\<dots> = length ?ks"
    by (simp only: somes_map_key length_map)
  finally have len: "length ?pos = length ?ks" .
  have "[k. Some k \<leftarrow> map (\<lambda>i. key (df ! i)) ?pos] = [k. Some k \<leftarrow> map key (map (\<lambda>i. df ! i) ?pos)]"
    by (simp add: comp_def)
  also have "\<dots> = ?ks"
    by (simp only: keyed somes_keyed)
  finally have ks: "[k. Some k \<leftarrow> map (\<lambda>i. key (df ! i)) ?pos] = ?ks" .
  have sorted_part:
    "map (\<lambda>i. df ! i) (map (\<lambda>j. ?pos ! j) (argsort ?ks)) = map (\<lambda>j. ?keyed ! j) (argsort ?ks)"
  proof -
    have "df ! (?pos ! j) = ?keyed ! j" if "j \<in> set (argsort ?ks)" for j
    proof -
      from that assms len have "j < length ?pos" by auto
      then have "map (\<lambda>i. df ! i) ?pos ! j = df ! (?pos ! j)"
        by (rule nth_map)
      then show ?thesis by (simp only: keyed)
    qed
    then show ?thesis by simp
  qed
  have missing_part:
    "map (\<lambda>i. df ! i) [i \<leftarrow> [0..<length df]. key (df ! i) = None] = [r \<leftarrow> df. key r = None]"
    by (rule rows_at_positions)
  have "sort_values argsort key df
          = map (\<lambda>i. df ! i)
              (map (\<lambda>j. ?pos ! j) (argsort [k. Some k \<leftarrow> map (\<lambda>i. key (df ! i)) ?pos])
                 @ [i \<leftarrow> [0..<length df]. key (df ! i) = None])"
    by (simp only: sort_values_def Let_def)
  also have "\<dots> = map (\<lambda>i. df ! i) (map (\<lambda>j. ?pos ! j) (argsort ?ks))
                     @ map (\<lambda>i. df ! i) [i \<leftarrow> [0..<length df]. key (df ! i) = None]"
    by (simp only: ks map_append)
  also have "\<dots> = map (\<lambda>j. ?keyed ! j) (argsort ?ks) @ [r \<leftarrow> df. key r = None]"
    by (simp only: sorted_part missing_part)
  finally show ?thesis .
qed

lemma mset_positions:
  assumes "mset p = mset [0..<length xs]"
  shows "mset (map (\<lambda>j. xs ! j) p) = mset xs"
proof -
  have "mset (map (\<lambda>j. xs ! j) p) = image_mset (\<lambda>j. xs ! j) (mset p)"
    by simp
  also have "\<dots> = mset (map (\<lambda>j. xs ! j) [0..<length xs])"
    by (simp add: assms)
  also have "\<dots> = mset xs"
    by (simp add: map_nth)
  finally show ?thesis .
qed

lemma positions_in_range:
  assumes "mset p = mset [0..<n]"
  shows "set p \<subseteq> {..<n}"
proof -
  from assms have "set p = set [0..<n]"
    by (rule mset_eq_setD)
  then show ?thesis by auto
qed

lemma keyed_nth:
  assumes "j < length [r \<leftarrow> df. key r \<noteq> None]"
  shows "key ([r \<leftarrow> df. key r \<noteq> None] ! j) = Some ([k. Some k \<leftarrow> map key df] ! j)"
proof -
  let ?keyed = "[r \<leftarrow> df. key r \<noteq> None]"
  from assms have "?keyed ! j \<in> set ?keyed"
    by (rule nth_mem)
  then have some: "key (?keyed ! j) \<noteq> None"
    by simp
  have "[k. Some k \<leftarrow> map key df] ! j = map (the \<circ> key) ?keyed ! j"
    by (simp only: somes_map_key)
  also from assms have "\<dots> = the (key (?keyed ! j))"
    by (simp only: nth_map comp_def)
  finally show ?thesis
    using some by simp
qed

lemma length_keyed: "length [r \<leftarrow> df. key r \<noteq> None] = length [k. Some k \<leftarrow> map key df]"
  by (simp only: somes_map_key length_map)

lemma ties_in_order:
  assumes "mset p = mset [0..<n]" and "sorted_wrt (\<lambda>i j. ks ! i = ks ! j \<longrightarrow> i < j) p"
  shows "[j \<leftarrow> p. ks ! j = (v::int)] = [j \<leftarrow> [0..<n]. ks ! j = v]"
proof (rule strict_sorted_equal)
  have "sorted_wrt (\<lambda>i j. ks ! i = ks ! j \<longrightarrow> i < j) [j \<leftarrow> p. ks ! j = v]"
    using assms(2) by (rule sorted_wrt_filter)
  then show "sorted_wrt (<) [j \<leftarrow> p. ks ! j = v]"
    by (rule sorted_wrt_mono_rel [rotated]) simp
  have "sorted_wrt (<) [0..<n]"
    by (simp add: strict_sorted_iff)
  then show "sorted_wrt (<) [j \<leftarrow> [0..<n]. ks ! j = v]"
    by (rule sorted_wrt_filter)
  from assms(1) have "set p = set [0..<n]"
    by (rule mset_eq_setD)
  then show "set [j \<leftarrow> p. ks ! j = v] = set [j \<leftarrow> [0..<n]. ks ! j = v]"
    by simp
qed

lemma sort_values_order:
  fixes key :: "'a \<Rightarrow> int option"
  assumes perm: "mset (argsort [k. Some k \<leftarrow> map key df]) = mset [0..<length [k. Some k \<leftarrow> map key df]]"
  shows "mset (sort_values argsort key df) = mset df"
    and "[k. Some k \<leftarrow> map key (sort_values argsort key df)]
           = map (\<lambda>j. [k. Some k \<leftarrow> map key df] ! j) (argsort [k. Some k \<leftarrow> map key df])"
    and "[r \<leftarrow> sort_values argsort key df. key r = None] = [r \<leftarrow> df. key r = None]"
    and "sort_values argsort key df
           = [r \<leftarrow> sort_values argsort key df. key r \<noteq> None] @ [r \<leftarrow> df. key r = None]"
    and "sorted_wrt (\<lambda>i j. [k. Some k \<leftarrow> map key df] ! i = [k. Some k \<leftarrow> map key df] ! j \<longrightarrow> i < j)
           (argsort [k. Some k \<leftarrow> map key df]) \<Longrightarrow>
         [r \<leftarrow> sort_values argsort key df. key r = Some v] = [r \<leftarrow> df. key r = Some v]"
proof -
  let ?ks = "[k. Some k \<leftarrow> map key df]"
  let ?keyed = "[r \<leftarrow> df. key r \<noteq> None]"
  let ?missing = "[r \<leftarrow> df. key r = None]"
  let ?p = "argsort ?ks"
  let ?front = "map (\<lambda>j. ?keyed ! j) ?p"
  from perm have range: "set ?p \<subseteq> {..<length ?ks}"
    by (rule positions_in_range)
  then have out: "sort_values argsort key df = ?front @ ?missing"
    by (rule sort_values_eq)
  have in_range: "j < length ?keyed" if "j \<in> set ?p" for j
    using that range by (auto simp only: length_keyed)
  have front_key: "key (?keyed ! j) = Some (?ks ! j)" if "j \<in> set ?p" for j
    using that by (intro keyed_nth in_range)
  have front_some: "\<forall>r \<in> set ?front. key r \<noteq> None"
    using front_key by auto
  have missing_none: "\<forall>r \<in> set ?missing. key r = None"
    by simp
  have front_filter: "[r \<leftarrow> ?front. key r \<noteq> None] = ?front" "[r \<leftarrow> ?front. key r = None] = []"
    using front_some by (simp_all only: filter_id_conv filter_empty_conv)
  have missing_filter: "[r \<leftarrow> ?missing. key r \<noteq> None] = []" "[r \<leftarrow> ?missing. key r = None] = ?missing"
    using missing_none by (simp_all only: filter_id_conv filter_empty_conv) auto
  show "mset (sort_values argsort key df) = mset df"
  proof -
    from perm have "mset ?p = mset [0..<length ?keyed]"
      by (simp only: length_keyed)
    then have "mset ?front = mset ?keyed"
      by (rule mset_positions)
    moreover have "mset ?keyed + mset ?missing = mset df"
      by (induction df) simp_all
    ultimately show ?thesis
      by (simp only: out mset_append)
  qed
  show "[k. Some k \<leftarrow> map key (sort_values argsort key df)] = map (\<lambda>j. ?ks ! j) ?p"
  proof -
    have "[k. Some k \<leftarrow> map key (?front @ ?missing)]
            = [k. Some k \<leftarrow> map key ?front] @ [k. Some k \<leftarrow> map key ?missing]"
      by simp
    also have "[k. Some k \<leftarrow> map key ?missing] = []"
      by (simp only: somes_map_key missing_filter list.map)
    also have "[k. Some k \<leftarrow> map key ?front] = map (the \<circ> key) ?front"
      by (simp only: somes_map_key [of key ?front] front_filter)
    also have "\<dots> = map (\<lambda>j. ?ks ! j) ?p"
      using front_key by (simp add: comp_def)
    finally show ?thesis
      by (simp only: out append_Nil2)
  qed
  show "[r \<leftarrow> sort_values argsort key df. key r = None] = ?missing"
    by (simp only: out filter_append front_filter missing_filter append_Nil)
  show "sort_values argsort key df
          = [r \<leftarrow> sort_values argsort key df. key r \<noteq> None] @ ?missing"
    by (simp only: out filter_append front_filter missing_filter append_Nil2)
  show "[r \<leftarrow> sort_values argsort key df. key r = Some v] = [r \<leftarrow> df. key r = Some v]"
    if ties: "sorted_wrt (\<lambda>i j. ?ks ! i = ?ks ! j \<longrightarrow> i < j) ?p"
  proof -
    have "[r \<leftarrow> ?missing. key r = Some v] = []"
      by (simp only: filter_empty_conv) auto
    then have "[r \<leftarrow> ?front @ ?missing. key r = Some v] = [r \<leftarrow> ?front. key r = Some v]"
      by (simp only: filter_append append_Nil2)
    also have "\<dots> = map (\<lambda>j. ?keyed ! j) [j \<leftarrow> ?p. key (?keyed ! j) = Some v]"
      by (simp add: filter_map comp_def)
    also have "[j \<leftarrow> ?p. key (?keyed ! j) = Some v] = [j \<leftarrow> ?p. ?ks ! j = v]"
      using front_key by (intro filter_cong refl) simp
    also have "\<dots> = [j \<leftarrow> [0..<length ?ks]. ?ks ! j = v]"
      using perm ties by (rule ties_in_order)
    also have "\<dots> = [j \<leftarrow> [0..<length ?keyed]. key (?keyed ! j) = Some v]"
      unfolding length_keyed [of key df, symmetric]
    proof (rule filter_cong [OF refl])
      fix j
      assume "j \<in> set [0..<length ?keyed]"
      then have "j < length ?keyed"
        by simp
      then have "key (?keyed ! j) = Some (?ks ! j)"
        by (rule keyed_nth)
      then show "(?ks ! j = v) = (key (?keyed ! j) = Some v)"
        by (simp only: option.inject)
    qed
    also have "map (\<lambda>j. ?keyed ! j) \<dots> = [r \<leftarrow> ?keyed. key r = Some v]"
      by (rule rows_at_positions)
    also have "\<dots> = [r \<leftarrow> df. key r = Some v]"
      by (simp add: conj_commute cong: conj_cong)
    finally show ?thesis
      by (simp only: out)
  qed
qed

lemma cs01_due_date_table_row: "cs01_due_date (table_row today c) = cs_due c"
  by (simp add: table_row_def Let_def)

lemma cs_days_column_table_row:
  "cs_days_column none_as_nan today (table_row today c)
     = cs_days today (frame_cell none_as_nan (cs_due c))"
  by (simp add: cs_days_column_def cs01_due_date_table_row)

lemma days_until_more:
  "days_until day0 (cs_due undated) = None"
  "days_until day0 (cs_due delta) = Some 137270"
  "days_until day0 (cs_due worded) = None"
  "days_until day0 (cs_due dateless) = None"
  by (simp_all add: undated_def delta_def worded_def dateless_def charlie_def day0_def
      days_until_def parse_defs ordinal_defs)

lemma cs_days_examples:
  "cs_days day0 (frame_cell none_as_nan (cs_due alpha)) = Some 10"
  "cs_days day0 (frame_cell none_as_nan (cs_due bravo)) = Some 3"
  "cs_days day0 (frame_cell none_as_nan (cs_due charlie)) = Some 40"
  "cs_days day0 (frame_cell none_as_nan (cs_due delta)) = Some 137270"
  "cs_days day0 (frame_cell none_as_nan (cs_due echo)) = Some 3"
  "cs_days day0 (frame_cell none_as_nan (cs_due undated)) = Some 99999"
  "cs_days day0 (frame_cell none_as_nan (cs_due worded)) = None"
  "cs_days day0 (frame_cell True (cs_due dateless)) = None"
  "cs_days day0 (frame_cell False (cs_due dateless)) = Some 99999"
  by (simp_all add: cs_days_def frame_cell_def alpha_def bravo_def charlie_def delta_def
      echo_def undated_def worded_def dateless_def day0_def days_until_def parse_defs
      ordinal_defs)

text \<open>
  C9, as the specification states it: rows without a known offset would be treated as
  one large sentinel and come last, in their order. Two tables of two rows show
  otherwise, with the sort kind that keeps ties and whichever way the frame holds
  \<^verbatim>\<open>None\<close>. A row whose date is "N/A" has the key 99999 and comes before the row whose
  statement is due in 2400, beyond 99999 days. A row whose date does not parse has a
  missing key instead of the sentinel and goes behind an "N/A" row that came after it.
\<close>

theorem sort_by_cs_days_counterexample:
  "days_until day0 (cs01_due_date (table_row day0 undated)) = None \<and>
   days_until day0 (cs01_due_date (table_row day0 delta)) = Some 137270 \<and>
   sort_by_cs_days stable_argsort False day0 [table_row day0 undated, table_row day0 delta]
     = [table_row day0 undated, table_row day0 delta] \<and>
   sort_by_cs_days stable_argsort True day0 [table_row day0 undated, table_row day0 delta]
     = [table_row day0 undated, table_row day0 delta] \<and>
   days_until day0 (cs01_due_date (table_row day0 worded)) = None \<and>
   sort_by_cs_days stable_argsort False day0 [table_row day0 worded, table_row day0 undated]
     = [table_row day0 undated, table_row day0 worded] \<and>
   sort_by_cs_days stable_argsort True day0 [table_row day0 worded, table_row day0 undated]
     = [table_row day0 undated, table_row day0 worded]"
proof -
  have "days_until day0 (cs01_due_date (table_row day0 undated)) = None"
    "days_until day0 (cs01_due_date (table_row day0 delta)) = Some 137270"
    "days_until day0 (cs01_due_date (table_row day0 worded)) = None"
    by (simp_all add: cs01_due_date_table_row days_until_more)
  moreover have "sort_by_cs_days stable_argsort none_as_nan day0
      [table_row day0 undated, table_row day0 delta]
     = [table_row day0 undated, table_row day0 delta]" for none_as_nan
    by (simp add: sort_by_cs_days_def sort_values_def stable_argsort_def
        cs_days_column_table_row cs_days_examples)
  moreover have "sort_by_cs_days stable_argsort none_as_nan day0
      [table_row day0 worded, table_row day0 undated]
     = [table_row day0 undated, table_row day0 worded]" for none_as_nan
    by (simp add: sort_by_cs_days_def sort_values_def stable_argsort_def
        cs_days_column_table_row cs_days_examples)
  ultimately show ?thesis by simp
qed

text \<open>
  C9, amended. Let \<open>argsort\<close> answer, for the keys of the frame, a permutation of
  their positions that puts them in ascending order. Then the sorted frame has the rows
  of the frame; the rows with a key come first, in ascending order of their keys, and the
  rows with a missing key follow in their order in the frame. When \<open>argsort\<close> keeps
  ties, rows with equal keys keep their order. The key of a row is 99999 when its due
  date is "N/A" or "". When the due date is \<^verbatim>\<open>None\<close> the key is 99999 where the frame
  keeps \<^verbatim>\<open>None\<close> and missing where the frame holds it as \<^verbatim>\<open>NaN\<close>. For every other due
  date the key is \<open>days_until\<close> of it: the day offset, or missing when the date does not
  parse.
\<close>

theorem sort_by_cs_days_order:
  assumes "mset (argsort (column_keys none_as_nan today df))
             = mset [0..<length (column_keys none_as_nan today df)]"
    and "sorted (map (\<lambda>j. column_keys none_as_nan today df ! j)
           (argsort (column_keys none_as_nan today df)))"
  shows "mset (sort_by_cs_days argsort none_as_nan today df) = mset df \<and>
         sorted (column_keys none_as_nan today (sort_by_cs_days argsort none_as_nan today df)) \<and>
         sort_by_cs_days argsort none_as_nan today df
           = [r \<leftarrow> sort_by_cs_days argsort none_as_nan today df.
                cs_days_column none_as_nan today r \<noteq> None]
               @ [r \<leftarrow> df. cs_days_column none_as_nan today r = None] \<and>
         (keeps_ties (column_keys none_as_nan today df)
            (argsort (column_keys none_as_nan today df)) \<longrightarrow>
            (\<forall>k. [r \<leftarrow> sort_by_cs_days argsort none_as_nan today df.
                     cs_days_column none_as_nan today r = k]
                   = [r \<leftarrow> df. cs_days_column none_as_nan today r = k])) \<and>
         (\<forall>r. cs01_due_date r \<in> set [JStr ''N/A'', JStr ''''] \<longrightarrow>
            cs_days_column none_as_nan today r = Some 99999) \<and>
         (\<forall>r. cs01_due_date r = JNull \<longrightarrow>
            cs_days_column none_as_nan today r = (if none_as_nan then None else Some 99999)) \<and>
         (\<forall>r. cs01_due_date r \<notin> set [JNull, JStr ''N/A'', JStr ''''] \<longrightarrow>
            cs_days_column none_as_nan today r = days_until today (cs01_due_date r))"
proof -
  let ?col = "cs_days_column none_as_nan today"
  let ?keys = "column_keys none_as_nan today"
  let ?out = "sort_values argsort ?col df"
  have out: "sort_by_cs_days argsort none_as_nan today df = ?out"
  proof (cases "df = []")
    case True
    with assms(1) have "argsort [] = []"
      by (simp add: column_keys_def)
    with True show ?thesis
      by (simp add: sort_by_cs_days_def sort_values_def)
  next
    case False
    then show ?thesis
      by (simp add: sort_by_cs_days_def)
  qed
  from assms(1) have perm: "mset (argsort [k. Some k \<leftarrow> map ?col df])
      = mset [0..<length [k. Some k \<leftarrow> map ?col df]]"
    by (simp only: column_keys_def)
  have a: "mset ?out = mset df"
    using perm by (rule sort_values_order(1))
  have "?keys ?out = map (\<lambda>j. ?keys df ! j) (argsort (?keys df))"
    unfolding column_keys_def using perm by (rule sort_values_order(2))
  with assms(2) have b: "sorted (?keys ?out)"
    by simp
  have c: "?out = [r \<leftarrow> ?out. ?col r \<noteq> None] @ [r \<leftarrow> df. ?col r = None]"
    using perm by (rule sort_values_order(4))
  have d: "[r \<leftarrow> ?out. ?col r = k] = [r \<leftarrow> df. ?col r = k]"
    if "keeps_ties (?keys df) (argsort (?keys df))" for k
  proof (cases k)
    case None
    show ?thesis
      unfolding None using perm by (rule sort_values_order(3))
  next
    case (Some v)
    from that have "sorted_wrt
        (\<lambda>i j. [k. Some k \<leftarrow> map ?col df] ! i = [k. Some k \<leftarrow> map ?col df] ! j \<longrightarrow> i < j)
        (argsort [k. Some k \<leftarrow> map ?col df])"
      by (simp only: keeps_ties_def column_keys_def)
    with perm show ?thesis
      unfolding Some by (rule sort_values_order(5))
  qed
  have e: "\<forall>r. cs01_due_date r \<in> set [JStr ''N/A'', JStr ''''] \<longrightarrow> ?col r = Some 99999"
    by (auto simp: cs_days_column_def cs_days_def frame_cell_def)
  have f: "\<forall>r. cs01_due_date r = JNull \<longrightarrow> ?col r = (if none_as_nan then None else Some 99999)"
    by (simp add: cs_days_column_def cs_days_def frame_cell_def)
  have g: "\<forall>r. cs01_due_date r \<notin> set [JNull, JStr ''N/A'', JStr ''''] \<longrightarrow>
      ?col r = days_until today (cs01_due_date r)"
    by (simp add: cs_days_column_def cs_days_def frame_cell_def)
  from a b c d e f g show ?thesis
    unfolding out by blast
qed

lemma example_table_keys:
  "column_keys True day0 example_table = [10, 99999, 137270, 3, 40, 3]"
  "column_keys False day0 example_table = [10, 99999, 99999, 137270, 3, 40, 3]"
  by (simp_all add: column_keys_def example_table_def table_rows_def cs_days_column_table_row
      cs_days_examples)

lemma example_table_argsort:
  "stable_argsort [10, 99999, 137270, 3, 40, 3] = [3, 5, 0, 4, 1, 2]"
  "stable_argsort [10, 99999, 99999, 137270, 3, 40, 3] = [4, 6, 0, 5, 1, 2, 3]"
  by (simp_all add: stable_argsort_def upt_rec numeral_eq_Suc)

lemma example_table_sorted:
  "sort_by_cs_days stable_argsort True day0 example_table
     = table_rows day0 [echo, bravo, alpha, charlie, undated, delta, dateless, worded]"
  "sort_by_cs_days stable_argsort False day0 example_table
     = table_rows day0 [echo, bravo, alpha, charlie, dateless, undated, delta, worded]"
  by (simp_all add: sort_by_cs_days_def sort_values_def example_table_def table_rows_def
      cs_days_column_table_row cs_days_examples example_table_argsort upt_rec numeral_eq_Suc)

text \<open>
  The example table under the sort kind that keeps ties: the two rows due in three days
  stay in their order, the "N/A" row is behind the offsets up to 99999 and before the
  year 2400, and the row with a date in words is last. The row whose date is \<^verbatim>\<open>None\<close>
  is with the rows of a missing key where the frame holds \<^verbatim>\<open>NaN\<close> for it, and before
  the "N/A" row, with the same key 99999, where the frame keeps \<^verbatim>\<open>None\<close>.
\<close>

theorem sort_by_cs_days_order_witness:
  "column_keys True day0 example_table = [10, 99999, 137270, 3, 40, 3] \<and>
   stable_argsort (column_keys True day0 example_table) = [3, 5, 0, 4, 1, 2] \<and>
   keeps_ties (column_keys True day0 example_table)
     (stable_argsort (column_keys True day0 example_table)) \<and>
   sort_by_cs_days stable_argsort True day0 example_table
     = table_rows day0 [echo, bravo, alpha, charlie, undated, delta, dateless, worded] \<and>
   mset (sort_by_cs_days stable_argsort True day0 example_table) = mset example_table \<and>
   sorted (column_keys True day0 (sort_by_cs_days stable_argsort True day0 example_table)) \<and>
   [r \<leftarrow> sort_by_cs_days stable_argsort True day0 example_table.
      cs_days_column True day0 r = Some 3]
     = [r \<leftarrow> example_table. cs_days_column True day0 r = Some 3] \<and>
   cs_days_column True day0 (table_row day0 dateless) = None \<and>
   sort_by_cs_days stable_argsort False day0 example_table
     = table_rows day0 [echo, bravo, alpha, charlie, dateless, undated, delta, worded] \<and>
   mset (sort_by_cs_days stable_argsort False day0 example_table) = mset example_table \<and>
   [r \<leftarrow> sort_by_cs_days stable_argsort False day0 example_table.
      cs_days_column False day0 r = Some 99999]
     = [r \<leftarrow> example_table. cs_days_column False day0 r = Some 99999] \<and>
   cs_days_column False day0 (table_row day0 dateless) = Some 99999"
proof -
  have perm: "mset (stable_argsort (column_keys nan day0 example_table))
      = mset [0..<length (column_keys nan day0 example_table)]" for nan
    by (cases nan) (simp_all add: example_table_keys example_table_argsort upt_rec numeral_eq_Suc)
  have asc: "sorted (map (\<lambda>j. column_keys nan day0 example_table ! j)
      (stable_argsort (column_keys nan day0 example_table)))" for nan
    by (cases nan) (simp_all add: example_table_keys example_table_argsort)
  have ties: "keeps_ties (column_keys nan day0 example_table)
      (stable_argsort (column_keys nan day0 example_table))" for nan
    by (cases nan) (simp_all add: keeps_ties_def example_table_keys example_table_argsort)
  have null: "cs01_due_date (table_row day0 dateless) = JNull"
    by (simp add: cs01_due_date_table_row dateless_def)
  from sort_by_cs_days_order [of stable_argsort True day0 example_table, OF perm asc] ties null
  have with_nan: "mset (sort_by_cs_days stable_argsort True day0 example_table) = mset example_table"
    "sorted (column_keys True day0 (sort_by_cs_days stable_argsort True day0 example_table))"
    "[r \<leftarrow> sort_by_cs_days stable_argsort True day0 example_table.
        cs_days_column True day0 r = Some 3]
      = [r \<leftarrow> example_table. cs_days_column True day0 r = Some 3]"
    "cs_days_column True day0 (table_row day0 dateless) = (if True then None else Some 99999)"
    by blast+
  from sort_by_cs_days_order [of stable_argsort False day0 example_table, OF perm asc] ties null
  have with_none: "mset (sort_by_cs_days stable_argsort False day0 example_table) = mset example_table"
    "[r \<leftarrow> sort_by_cs_days stable_argsort False day0 example_table.
        cs_days_column False day0 r = Some 99999]
      = [r \<leftarrow> example_table. cs_days_column False day0 r = Some 99999]"
    "cs_days_column False day0 (table_row day0 dateless) = (if False then None else Some 99999)"
    by blast+
  from with_nan with_none ties [of True] show ?thesis
    by (simp add: example_table_keys example_table_argsort example_table_sorted)
qed

end
